theory Spec2Isabelle
  imports Complex_Main "HOL-Library.AList" "HOL-Library.Log_Nat"
begin

section \<open>Python values and exceptions\<close>

text \<open>
  The script \<^verbatim>\<open>scripts/csv_to_json.py\<close> reads semicolon-separated files with
  \<^verbatim>\<open>csv.DictReader\<close>, drops the columns that hold only zeros (and the columns
  \<^verbatim>\<open>date\<close> and \<^verbatim>\<open>month\<close>), coerces the remaining cells with \<^verbatim>\<open>parse_value\<close> and
  writes one compact JSON object per file.

  A Python \<^verbatim>\<open>str\<close> is modelled as a \<^typ>\<open>string\<close>; a \<^typ>\<open>char\<close> stands for the code
  point of the same number (U+0000 to U+00FF). The exceptions that the script can meet
  are the constructors of \<open>error\<close>; a computation that may raise returns
  \<open>error + 'a\<close>, with \<open>Inl\<close> for the exception.
\<close>

datatype error =
  ValueError | OverflowError | AttributeError | KeyError | StopIteration
  | FileNotFoundError | CsvError

text \<open>
  A Python \<^verbatim>\<open>float\<close> is an IEEE 754 binary64 number: \<open>Fin neg m\<close> is the finite
  number of magnitude \<open>m\<close> (a rational that binary64 represents exactly) and sign
  \<open>neg\<close>, so that \<open>Fin True 0\<close> is \<^verbatim>\<open>-0.0\<close>.
\<close>

datatype pyfloat = Fin bool rat | Infinity bool | NaN

text \<open>What \<^verbatim>\<open>parse_value\<close> returns: \<^verbatim>\<open>None\<close>, an \<^verbatim>\<open>int\<close>, a \<^verbatim>\<open>float\<close> or a \<^verbatim>\<open>str\<close>.\<close>

datatype pyval = PyNone | PyInt int | PyFloat pyfloat | PyStr string

section \<open>The built-in functions that the script calls\<close>

subsection \<open>\<^verbatim>\<open>str.strip\<close>\<close>

text \<open>
  \<^verbatim>\<open>str.strip()\<close> removes the leading and trailing characters for which
  \<^verbatim>\<open>str.isspace\<close> holds. Below U+0100 these are U+0009 to U+000D, U+001C to U+0020,
  U+0085 and U+00A0.
\<close>

definition isspace :: "char \<Rightarrow> bool" where
  "isspace c =
     (let n = (of_char c :: nat)
      in (9 \<le> n \<and> n \<le> 13) \<or> (28 \<le> n \<and> n \<le> 32) \<or> n = 133 \<or> n = 160)"

definition strip :: "string \<Rightarrow> string" where
  "strip s = rev (dropWhile isspace (rev (dropWhile isspace s)))"

subsection \<open>Decimal numerals\<close>

definition isdigit :: "char \<Rightarrow> bool" where
  "isdigit c = (let n = (of_char c :: nat) in 48 \<le> n \<and> n \<le> 57)"

definition digit_value :: "char \<Rightarrow> nat" where
  "digit_value c = of_char c - 48"

definition nat_of_digits :: "string \<Rightarrow> nat" where
  "nat_of_digits ds = foldl (\<lambda>a c. 10 * a + digit_value c) 0 ds"

text \<open>
  \<^verbatim>\<open>float\<close> and \<^verbatim>\<open>int\<close> first trim the white space of the C locale (to which the
  non-ASCII spaces have been mapped), then accept single underscores between digits.
  \<open>underscores_ok\<close> is the scan of \<^verbatim>\<open>_Py_string_to_number_with_underscores\<close>: an
  underscore must follow a digit and precede a digit.
\<close>

definition c_isspace :: "char \<Rightarrow> bool" where
  "c_isspace c =
     (let n = (of_char c :: nat) in (9 \<le> n \<and> n \<le> 13) \<or> n = 32 \<or> n = 133 \<or> n = 160)"

definition c_strip :: "string \<Rightarrow> string" where
  "c_strip s = rev (dropWhile c_isspace (rev (dropWhile c_isspace s)))"

fun underscores_ok :: "char \<Rightarrow> string \<Rightarrow> bool" where
  "underscores_ok prev [] = (prev \<noteq> CHR ''_'')"
| "underscores_ok prev (c # cs) =
     ((if c = CHR ''_'' then isdigit prev
       else if prev = CHR ''_'' then isdigit c
       else True)
      \<and> underscores_ok c cs)"

definition strip_underscores :: "string \<Rightarrow> string option" where
  "strip_underscores s =
     (if underscores_ok (CHR 0x00) s then Some (filter (\<lambda>c. c \<noteq> CHR ''_'') s) else None)"

definition take_sign :: "string \<Rightarrow> bool \<times> string" where
  "take_sign s =
     (case s of
        [] \<Rightarrow> (False, [])
      | c # cs \<Rightarrow>
          if c = CHR ''-'' then (True, cs)
          else if c = CHR ''+'' then (False, cs)
          else (False, s))"

subsection \<open>\<^verbatim>\<open>int(str)\<close>\<close>

text \<open>
  \<^verbatim>\<open>int(s)\<close> in base 10: an optional sign and at least one digit, nothing else.
  \<open>None\<close> is \<^verbatim>\<open>ValueError\<close>. (The limit of Python 3.11 on the number of digits,
  4300 unless configured otherwise, is not part of the model.)
\<close>

definition int_of_str :: "string \<Rightarrow> int option" where
  "int_of_str s =
     (case strip_underscores (c_strip s) of
        None \<Rightarrow> None
      | Some t \<Rightarrow>
          (let (neg, ds) = take_sign t
           in if ds \<noteq> [] \<and> list_all isdigit ds
              then Some (if neg then - int (nat_of_digits ds) else int (nat_of_digits ds))
              else None))"

subsection \<open>\<^verbatim>\<open>float(str)\<close>\<close>

definition pow2 :: "int \<Rightarrow> rat" where
  "pow2 k = (if 0 \<le> k then 2 ^ nat k else 1 / 2 ^ nat (- k))"

definition pow10 :: "int \<Rightarrow> rat" where
  "pow10 k = (if 0 \<le> k then 10 ^ nat k else 1 / 10 ^ nat (- k))"

text \<open>\<open>ilog b q\<close> is the integer \<open>k\<close> with \<open>b ^ k \<le> q < b ^ (k + 1)\<close>, for \<open>q > 0\<close>.\<close>

definition ilog :: "nat \<Rightarrow> rat \<Rightarrow> int" where
  "ilog b q =
     (let (n, d) = quotient_of q;
          k = int (floorlog b (nat n)) - int (floorlog b (nat d));
          bk = (if 0 \<le> k then of_nat b ^ nat k else 1 / of_nat b ^ nat (- k))
      in if bk \<le> q then k else k - 1)"

definition round_half_even :: "rat \<Rightarrow> int" where
  "round_half_even q =
     (let f = \<lfloor>q\<rfloor>; d = q - of_int f
      in if d < 1 / 2 then f
         else if 1 / 2 < d then f + 1
         else if even f then f else f + 1)"

text \<open>
  Rounding of a magnitude to binary64, to nearest and ties to even: 53 bits of
  precision, exponents down to the subnormal \<open>2 ^ -1074\<close>; \<open>None\<close> when the result
  is too large to be finite.
\<close>

definition float_overflow :: rat where
  "float_overflow = pow2 1024"

definition binary64 :: "rat \<Rightarrow> rat option" where
  "binary64 q =
     (if q = 0 then Some 0
      else
        let p = max (ilog 2 q - 52) (- 1074);
            r = of_int (round_half_even (q / pow2 p)) * pow2 p
        in if float_overflow \<le> r then None else Some r)"

text \<open>
  The numerals of \<^verbatim>\<open>float\<close>, after the sign: digits with an optional point, at least
  one digit before or after it, and an optional exponent.
\<close>

definition parse_exponent :: "string \<Rightarrow> int option" where
  "parse_exponent s =
     (case s of
        [] \<Rightarrow> Some 0
      | c # cs \<Rightarrow>
          if c = CHR ''e'' \<or> c = CHR ''E''
          then (let (neg, ds) = take_sign cs
                in if ds \<noteq> [] \<and> list_all isdigit ds
                   then Some (if neg then - int (nat_of_digits ds) else int (nat_of_digits ds))
                   else None)
          else None)"

definition parse_decimal :: "string \<Rightarrow> rat option" where
  "parse_decimal s =
     (let ip = takeWhile isdigit s;
          r1 = dropWhile isdigit s;
          has_dot = (r1 \<noteq> [] \<and> hd r1 = CHR ''.'');
          fp = (if has_dot then takeWhile isdigit (tl r1) else []);
          r2 = (if has_dot then dropWhile isdigit (tl r1) else r1)
      in if ip = [] \<and> fp = [] then None
         else (case parse_exponent r2 of
                 None \<Rightarrow> None
               | Some e \<Rightarrow>
                   Some (of_nat (nat_of_digits (ip @ fp)) * pow10 (e - int (length fp)))))"

definition tolower :: "char \<Rightarrow> char" where
  "tolower c =
     (let n = (of_char c :: nat) in if 65 \<le> n \<and> n \<le> 90 then char_of (n + 32) else c)"

text \<open>\<^verbatim>\<open>float(s)\<close>; \<open>None\<close> is \<^verbatim>\<open>ValueError\<close>.\<close>

definition float_of_str :: "string \<Rightarrow> pyfloat option" where
  "float_of_str s =
     (case strip_underscores (c_strip s) of
        None \<Rightarrow> None
      | Some t \<Rightarrow>
          (let (neg, u) = take_sign t; l = map tolower u
           in if l = ''inf'' \<or> l = ''infinity'' then Some (Infinity neg)
              else if l = ''nan'' then Some NaN
              else (case parse_decimal u of
                      None \<Rightarrow> None
                    | Some q \<Rightarrow>
                        (case binary64 q of
                           None \<Rightarrow> Some (Infinity neg)
                         | Some r \<Rightarrow> Some (Fin neg r)))))"

subsection \<open>\<^verbatim>\<open>int(float)\<close>, comparison and \<^verbatim>\<open>round\<close>\<close>

text \<open>\<^verbatim>\<open>int(f)\<close> truncates towards zero and raises on an infinity or a NaN.\<close>

definition int_of_float :: "pyfloat \<Rightarrow> error + int" where
  "int_of_float f =
     (case f of
        Fin neg m \<Rightarrow> Inr (if neg then - \<lfloor>m\<rfloor> else \<lfloor>m\<rfloor>)
      | Infinity neg \<Rightarrow> Inl OverflowError
      | NaN \<Rightarrow> Inl ValueError)"

text \<open>\<^verbatim>\<open>f == i\<close> for a float and an int compares the exact values.\<close>

definition float_eq_int :: "pyfloat \<Rightarrow> int \<Rightarrow> bool" where
  "float_eq_int f i =
     (case f of
        Fin neg m \<Rightarrow> (if neg then - m else m) = of_int i
      | _ \<Rightarrow> False)"

text \<open>\<^verbatim>\<open>f != 0.0\<close>: both zeros are equal to \<^verbatim>\<open>0.0\<close>, a NaN is equal to nothing.\<close>

definition float_is_zero :: "pyfloat \<Rightarrow> bool" where
  "float_is_zero f = (case f of Fin neg m \<Rightarrow> m = 0 | _ \<Rightarrow> False)"

text \<open>
  \<^verbatim>\<open>round(f, 2)\<close> rounds the exact value to two decimals, ties to even, keeps the
  sign, and converts the decimal back to binary64.
\<close>

definition round2 :: "pyfloat \<Rightarrow> error + pyfloat" where
  "round2 f =
     (case f of
        Fin neg m \<Rightarrow>
          (case binary64 (of_int (round_half_even (m * 100)) / 100) of
             None \<Rightarrow> Inl OverflowError
           | Some r \<Rightarrow> Inr (Fin neg r))
      | _ \<Rightarrow> Inr f)"

section \<open>\<^verbatim>\<open>parse_value\<close>\<close>

text \<open>
  A cell of a row of \<^verbatim>\<open>csv.DictReader\<close> is a string, \<^verbatim>\<open>None\<close> (the row was
  shorter than the header) or a list of strings (the surplus fields of a longer row,
  under the key \<^verbatim>\<open>None\<close>).
\<close>

datatype cell = Str string | NoneCell | Rest "string list"

text \<open>
  \<^verbatim>\<open>
  def parse_value(val: str):
      val = val.strip()
      if val == "":
          return None
      try:
          f = float(val)
          if f == int(f) and "." not in val:
              return int(val)
          return round(f, 2)
      except ValueError:
          return val
  \<close>
  Only a string has \<^verbatim>\<open>strip\<close>. The \<^verbatim>\<open>except\<close> clause catches the \<^verbatim>\<open>ValueError\<close> of
  \<^verbatim>\<open>float(val)\<close>, of \<^verbatim>\<open>int(f)\<close> (a NaN) and of \<^verbatim>\<open>int(val)\<close>; the \<^verbatim>\<open>OverflowError\<close>
  of \<^verbatim>\<open>int(f)\<close> (an infinity) leaves the function.
\<close>

definition parse_str :: "string \<Rightarrow> error + pyval" where
  "parse_str s =
     (let val = strip s
      in if val = [] then Inr PyNone
         else (case float_of_str val of
                 None \<Rightarrow> Inr (PyStr val)
               | Some f \<Rightarrow>
                   (case int_of_float f of
                      Inl e \<Rightarrow> (if e = ValueError then Inr (PyStr val) else Inl e)
                    | Inr i \<Rightarrow>
                        if float_eq_int f i \<and> CHR ''.'' \<notin> set val
                        then (case int_of_str val of
                                None \<Rightarrow> Inr (PyStr val)
                              | Some n \<Rightarrow> Inr (PyInt n))
                        else (case round2 f of
                                Inl e \<Rightarrow> (if e = ValueError then Inr (PyStr val) else Inl e)
                              | Inr r \<Rightarrow> Inr (PyFloat r)))))"

definition parse_value :: "cell \<Rightarrow> error + pyval" where
  "parse_value v = (case v of Str s \<Rightarrow> parse_str s | _ \<Rightarrow> Inl AttributeError)"

section \<open>Reading a file\<close>

subsection \<open>Lines\<close>

text \<open>
  The file is opened with \<^verbatim>\<open>newline=""\<close>: a line ends after \<^verbatim>\<open>\n\<close>, after
  \<^verbatim>\<open>\r\n\<close> or after a \<^verbatim>\<open>\r\<close> that no \<^verbatim>\<open>\n\<close> follows, and keeps its terminator.
  \<open>cur\<close> holds the characters of the current line, last one first.
\<close>

fun readlines :: "string \<Rightarrow> string \<Rightarrow> string list" where
  "readlines [] cur = (if cur = [] then [] else [rev cur])"
| "readlines (c # cs) cur =
     (if c = CHR 0x0A then rev (c # cur) # readlines cs []
      else if c = CHR 0x0D then
        (case cs of
           [] \<Rightarrow> [rev (c # cur)]
         | d # ds \<Rightarrow>
             if d = CHR 0x0A then rev (d # c # cur) # readlines ds []
             else rev (c # cur) # readlines cs [])
      else readlines cs (c # cur))"

subsection \<open>\<^verbatim>\<open>csv.reader(f, delimiter=";")\<close>\<close>

text \<open>
  The state machine of the \<^verbatim>\<open>_csv\<close> module for the dialect in use: delimiter
  \<^verbatim>\<open>;\<close>, quote character \<^verbatim>\<open>"\<close> doubled inside a quoted field, no escape
  character, not strict. The character \<open>None\<close> is the end of a line. A field of
  more than 131072 characters raises \<^verbatim>\<open>csv.Error\<close>.
\<close>

datatype pstate =
  START_RECORD | START_FIELD | IN_FIELD | IN_QUOTED_FIELD | QUOTE_IN_QUOTED_FIELD
  | EAT_CRNL

record parser =
  p_state :: pstate
  p_field :: string
  p_fields :: "string list"

definition parse_reset :: parser where
  "parse_reset = \<lparr>p_state = START_RECORD, p_field = [], p_fields = []\<rparr>"

definition parse_add_char :: "parser \<Rightarrow> char \<Rightarrow> error + parser" where
  "parse_add_char p c =
     (if (131072 :: int) \<le> int (length (p_field p)) then Inl CsvError
      else Inr (p\<lparr>p_field := p_field p @ [c]\<rparr>))"

definition parse_save_field :: "parser \<Rightarrow> parser" where
  "parse_save_field p = p\<lparr>p_fields := p_fields p @ [p_field p], p_field := []\<rparr>"

definition is_newline :: "char \<Rightarrow> bool" where
  "is_newline c = (c = CHR 0x0A \<or> c = CHR 0x0D)"

definition start_field :: "parser \<Rightarrow> char option \<Rightarrow> error + parser" where
  "start_field p c =
     (case c of
        None \<Rightarrow> Inr ((parse_save_field p)\<lparr>p_state := START_RECORD\<rparr>)
      | Some ch \<Rightarrow>
          if is_newline ch then Inr ((parse_save_field p)\<lparr>p_state := EAT_CRNL\<rparr>)
          else if ch = CHR 0x22 then Inr (p\<lparr>p_state := IN_QUOTED_FIELD\<rparr>)
          else if ch = CHR '';'' then Inr ((parse_save_field p)\<lparr>p_state := START_FIELD\<rparr>)
          else parse_add_char (p\<lparr>p_state := IN_FIELD\<rparr>) ch)"

definition process_char :: "parser \<Rightarrow> char option \<Rightarrow> error + parser" where
  "process_char p c =
     (case p_state p of
        START_RECORD \<Rightarrow>
          (case c of
             None \<Rightarrow> Inr p
           | Some ch \<Rightarrow>
               if is_newline ch then Inr (p\<lparr>p_state := EAT_CRNL\<rparr>)
               else start_field (p\<lparr>p_state := START_FIELD\<rparr>) c)
      | START_FIELD \<Rightarrow> start_field p c
      | IN_FIELD \<Rightarrow>
          (case c of
             None \<Rightarrow> Inr ((parse_save_field p)\<lparr>p_state := START_RECORD\<rparr>)
           | Some ch \<Rightarrow>
               if is_newline ch then Inr ((parse_save_field p)\<lparr>p_state := EAT_CRNL\<rparr>)
               else if ch = CHR '';'' then
                 Inr ((parse_save_field p)\<lparr>p_state := START_FIELD\<rparr>)
               else parse_add_char p ch)
      | IN_QUOTED_FIELD \<Rightarrow>
          (case c of
             None \<Rightarrow> Inr p
           | Some ch \<Rightarrow>
               if ch = CHR 0x22 then Inr (p\<lparr>p_state := QUOTE_IN_QUOTED_FIELD\<rparr>)
               else parse_add_char p ch)
      | QUOTE_IN_QUOTED_FIELD \<Rightarrow>
          (case c of
             None \<Rightarrow> Inr ((parse_save_field p)\<lparr>p_state := START_RECORD\<rparr>)
           | Some ch \<Rightarrow>
               if ch = CHR 0x22 then parse_add_char (p\<lparr>p_state := IN_QUOTED_FIELD\<rparr>) ch
               else if ch = CHR '';'' then
                 Inr ((parse_save_field p)\<lparr>p_state := START_FIELD\<rparr>)
               else if is_newline ch then
                 Inr ((parse_save_field p)\<lparr>p_state := EAT_CRNL\<rparr>)
               else parse_add_char (p\<lparr>p_state := IN_FIELD\<rparr>) ch)
      | EAT_CRNL \<Rightarrow>
          (case c of
             None \<Rightarrow> Inr (p\<lparr>p_state := START_RECORD\<rparr>)
           | Some ch \<Rightarrow> if is_newline ch then Inr p else Inl CsvError))"

text \<open>One line: its characters, then the end of the line.\<close>

fun process_line :: "parser \<Rightarrow> string \<Rightarrow> error + parser" where
  "process_line p [] = process_char p None"
| "process_line p (c # cs) =
     (case process_char p (Some c) of
        Inl e \<Rightarrow> Inl e
      | Inr p' \<Rightarrow> process_line p' cs)"

text \<open>
  \<^verbatim>\<open>list(reader)\<close>: a record is complete when a line ends in the state
  \<open>START_RECORD\<close>; the parser is reset before the next record. When the lines run
  out inside a record, the pending field closes the last record.
\<close>

fun read_all :: "parser \<Rightarrow> string list \<Rightarrow> error + string list list" where
  "read_all p [] =
     (if p_field p = [] \<and> p_state p \<noteq> IN_QUOTED_FIELD
      then Inr []
      else Inr [p_fields (parse_save_field p)])"
| "read_all p (l # ls) =
     (case process_line p l of
        Inl e \<Rightarrow> Inl e
      | Inr p' \<Rightarrow>
          if p_state p' = START_RECORD
          then (case read_all parse_reset ls of
                  Inl e \<Rightarrow> Inl e
                | Inr rs \<Rightarrow> Inr (p_fields p' # rs))
          else read_all p' ls)"

definition csv_reader :: "string \<Rightarrow> error + string list list" where
  "csv_reader text = read_all parse_reset (readlines text [])"

subsection \<open>\<^verbatim>\<open>csv.DictReader\<close>\<close>

text \<open>
  A row is a Python \<^verbatim>\<open>dict\<close>, which keeps its keys in the order of their first
  insertion: an association list, updated with \<^const>\<open>AList.update\<close>. The key
  \<open>None\<close> is \<^verbatim>\<open>restkey\<close>, under which \<^verbatim>\<open>DictReader\<close> stores the surplus fields of
  a record longer than the header; the fields missing from a shorter record are
  \<^verbatim>\<open>restval\<close>, which is \<^verbatim>\<open>None\<close>.
  \<^verbatim>\<open>
  d = dict(zip(self.fieldnames, row))
  lf = len(self.fieldnames)
  lr = len(row)
  if lf < lr:
      d[self.restkey] = row[lf:]
  elif lf > lr:
      for key in self.fieldnames[lr:]:
          d[key] = self.restval
  \<close>
\<close>

type_synonym key = "string option"

type_synonym row = "(key \<times> cell) list"

definition make_row :: "string list \<Rightarrow> string list \<Rightarrow> row" where
  "make_row fieldnames r =
     (let d = foldl (\<lambda>d (k, v). AList.update (Some k) (Str v) d) [] (zip fieldnames r);
          lf = length fieldnames;
          lr = length r
      in if lf < lr then AList.update None (Rest (drop lf r)) d
         else if lr < lf then
           foldl (\<lambda>d k. AList.update (Some k) NoneCell d) d (drop lr fieldnames)
         else d)"

text \<open>
  The first record is the header; the records that are empty lists (blank lines) are
  skipped. No record at all gives no row.
\<close>

definition dict_reader :: "string list list \<Rightarrow> row list" where
  "dict_reader recs =
     (case recs of
        [] \<Rightarrow> []
      | fieldnames # rest \<Rightarrow> map (make_row fieldnames) (filter (\<lambda>r. r \<noteq> []) rest))"

section \<open>\<^verbatim>\<open>json.dump\<close>\<close>

text \<open>
  What \<^verbatim>\<open>json.dump(columns, f, separators=(",", ":"))\<close> writes for a dictionary of
  lists of the values above. Integers are written in decimal.
\<close>

fun nat_digits :: "nat \<Rightarrow> string" where
  "nat_digits n =
     (if n < 10 then [char_of (48 + n)]
      else nat_digits (n div 10) @ [char_of (48 + n mod 10)])"

declare nat_digits.simps [simp del]

definition int_repr :: "int \<Rightarrow> string" where
  "int_repr i = (if i < 0 then ''-'' @ nat_digits (nat (- i)) else nat_digits (nat i))"

text \<open>
  A float is written as \<^verbatim>\<open>repr\<close> writes it: the shortest decimal that reads back as
  the same binary64 number (of two such decimals, the one nearer to the number); in
  scientific notation when the decimal exponent is below \<open>-4\<close> or at least \<open>16\<close>.
  \<open>shortest_at m k n\<close> looks for such a decimal with \<open>n\<close> significant digits, where
  \<open>10 ^ k \<le> m < 10 ^ (k + 1)\<close>; it returns the digits as an integer, and the exponent
  of their unit.
\<close>

definition shortest_at :: "rat \<Rightarrow> int \<Rightarrow> nat \<Rightarrow> (int \<times> int) option" where
  "shortest_at m k n =
     (let e = k - int n + 1;
          u = pow10 e;
          lo = \<lfloor>m / u\<rfloor>;
          hi = lo + 1;
          ok_lo = (binary64 (of_int lo * u) = Some m);
          ok_hi = (binary64 (of_int hi * u) = Some m);
          d_lo = m - of_int lo * u;
          d_hi = of_int hi * u - m
      in if ok_lo \<and> ok_hi
         then (if d_lo < d_hi \<or> (d_lo = d_hi \<and> even lo) then Some (lo, e) else Some (hi, e))
         else if ok_lo then Some (lo, e)
         else if ok_hi then Some (hi, e)
         else None)"

definition repr_digits :: "rat \<Rightarrow> int \<times> int" where
  "repr_digits m =
     (case List.map_filter (shortest_at m (ilog 10 m)) [1..<18] of
        [] \<Rightarrow> (0, 0)
      | x # _ \<Rightarrow> x)"

definition exponent_repr :: "int \<Rightarrow> string" where
  "exponent_repr x =
     ''e'' @ (if x < 0 then ''-'' else ''+'') @ (if \<bar>x\<bar> < 10 then ''0'' else [])
       @ nat_digits (nat \<bar>x\<bar>)"

definition float_repr :: "pyfloat \<Rightarrow> string" where
  "float_repr f =
     (case f of
        NaN \<Rightarrow> ''NaN''
      | Infinity neg \<Rightarrow> (if neg then ''-Infinity'' else ''Infinity'')
      | Fin neg m \<Rightarrow>
          (if neg then ''-'' else []) @
          (if m = 0 then ''0.0''
           else
             let (d, e) = repr_digits m;
                 ds0 = nat_digits (nat d);
                 ds = rev (dropWhile (\<lambda>c. c = CHR ''0'') (rev ds0));
                 decpt = int (length ds0) + e
             in if decpt \<le> - 4 \<or> 16 < decpt
                then take 1 ds @ (if tl ds = [] then [] else ''.'' @ tl ds)
                       @ exponent_repr (decpt - 1)
                else if decpt \<le> 0
                then ''0.'' @ replicate (nat (- decpt)) (CHR ''0'') @ ds
                else if int (length ds) \<le> decpt
                then ds @ replicate (nat (decpt - int (length ds))) (CHR ''0'') @ ''.0''
                else take (nat decpt) ds @ ''.'' @ drop (nat decpt) ds))"

text \<open>
  A string is written between double quotes, with \<^verbatim>\<open>ensure_ascii\<close>: the quote, the
  backslash and the control characters are escaped, and so is every character outside
  the printable ASCII range.
\<close>

definition hex_digit :: "nat \<Rightarrow> char" where
  "hex_digit n = (if n < 10 then char_of (48 + n) else char_of (87 + n))"

definition json_char :: "char \<Rightarrow> string" where
  "json_char c =
     (let n = (of_char c :: nat)
      in if n = 34 then [CHR 0x5C, CHR 0x22]
         else if n = 92 then [CHR 0x5C, CHR 0x5C]
         else if n = 10 then [CHR 0x5C, CHR ''n'']
         else if n = 13 then [CHR 0x5C, CHR ''r'']
         else if n = 9 then [CHR 0x5C, CHR ''t'']
         else if n = 8 then [CHR 0x5C, CHR ''b'']
         else if n = 12 then [CHR 0x5C, CHR ''f'']
         else if 32 \<le> n \<and> n \<le> 126 then [c]
         else [CHR 0x5C, CHR ''u'', CHR ''0'', CHR ''0'', hex_digit (n div 16),
               hex_digit (n mod 16)])"

definition json_string :: "string \<Rightarrow> string" where
  "json_string s = [CHR 0x22] @ concat (map json_char s) @ [CHR 0x22]"

fun json_value :: "pyval \<Rightarrow> string" where
  "json_value PyNone = ''null''"
| "json_value (PyInt i) = int_repr i"
| "json_value (PyFloat f) = float_repr f"
| "json_value (PyStr s) = json_string s"

fun join :: "string \<Rightarrow> string list \<Rightarrow> string" where
  "join sep [] = []"
| "join sep [x] = x"
| "join sep (x # y # ys) = x @ sep @ join sep (y # ys)"

definition json_array :: "pyval list \<Rightarrow> string" where
  "json_array vs = ''['' @ join '','' (map json_value vs) @ '']''"

text \<open>A key that is \<^verbatim>\<open>None\<close> is written as the string \<^verbatim>\<open>"null"\<close>.\<close>

definition json_key :: "key \<Rightarrow> string" where
  "json_key k = (case k of None \<Rightarrow> json_string ''null'' | Some s \<Rightarrow> json_string s)"

type_synonym document = "(key \<times> pyval list) list"

definition json_dumps :: "document \<Rightarrow> string" where
  "json_dumps columns =
     ''{'' @ join '','' (map (\<lambda>(k, vs). json_key k @ '':'' @ json_array vs) columns) @ ''}''"

section \<open>\<^verbatim>\<open>convert\<close>\<close>

subsection \<open>The all-zero columns\<close>

text \<open>
  The inner loop of the search for the all-zero columns, for one column:
  \<^verbatim>\<open>
  all_zero = True
  for row in rows:
      val = row[col].strip()
      if val == "":
          continue
      try:
          if float(val) != 0.0:
              all_zero = False
              break
      except ValueError:
          all_zero = False
          break
  \<close>
  The result is the final \<^verbatim>\<open>all_zero\<close>. A cell that is not a string has no
  \<^verbatim>\<open>strip\<close>.
\<close>

fun col_all_zero :: "key \<Rightarrow> row list \<Rightarrow> error + bool" where
  "col_all_zero col [] = Inr True"
| "col_all_zero col (row # rows) =
     (case map_of row col of
        None \<Rightarrow> Inl KeyError
      | Some (Str s) \<Rightarrow>
          (let val = strip s
           in if val = [] then col_all_zero col rows
              else (case float_of_str val of
                      None \<Rightarrow> Inr False
                    | Some f \<Rightarrow>
                        if \<not> float_is_zero f then Inr False else col_all_zero col rows))
      | Some _ \<Rightarrow> Inl AttributeError)"

text \<open>
  The outer loop, with the set \<^verbatim>\<open>zero_cols\<close> as accumulator:
  \<^verbatim>\<open>
  for col in headers:
      if col in ("date", "month"):
          zero_cols.add(col)  # drop redundant time cols
          continue
      if col == "timestamps":
          continue
      ...
      if all_zero:
          zero_cols.add(col)
  \<close>
\<close>

fun find_zero_cols :: "key list \<Rightarrow> row list \<Rightarrow> key set \<Rightarrow> error + key set" where
  "find_zero_cols [] rows zero_cols = Inr zero_cols"
| "find_zero_cols (col # cols) rows zero_cols =
     (if col = Some ''date'' \<or> col = Some ''month''
      then find_zero_cols cols rows (insert col zero_cols)
      else if col = Some ''timestamps'' then find_zero_cols cols rows zero_cols
      else (case col_all_zero col rows of
              Inl e \<Rightarrow> Inl e
            | Inr all_zero \<Rightarrow>
                find_zero_cols cols rows
                  (if all_zero then insert col zero_cols else zero_cols)))"

subsection \<open>The columnar document\<close>

text \<open>
  \<^verbatim>\<open>
  keep_cols = [c for c in headers if c not in zero_cols]
  columns = {col: [] for col in keep_cols}
  for row in rows:
      for col in keep_cols:
          columns[col].append(parse_value(row[col]))
  \<close>
  \<open>append_row\<close> is the inner loop for one row, \<open>build_columns\<close> the outer loop.
\<close>

fun append_row :: "row \<Rightarrow> key list \<Rightarrow> document \<Rightarrow> error + document" where
  "append_row row [] columns = Inr columns"
| "append_row row (col # cols) columns =
     (case map_of row col of
        None \<Rightarrow> Inl KeyError
      | Some v \<Rightarrow>
          (case parse_value v of
             Inl e \<Rightarrow> Inl e
           | Inr x \<Rightarrow>
               (case map_of columns col of
                  None \<Rightarrow> Inl KeyError
                | Some vs \<Rightarrow> append_row row cols (AList.update col (vs @ [x]) columns))))"

fun build_columns :: "row list \<Rightarrow> key list \<Rightarrow> document \<Rightarrow> error + document" where
  "build_columns [] keep_cols columns = Inr columns"
| "build_columns (row # rows) keep_cols columns =
     (case append_row row keep_cols columns of
        Inl e \<Rightarrow> Inl e
      | Inr columns' \<Rightarrow> build_columns rows keep_cols columns')"

definition keep_cols_of :: "key list \<Rightarrow> key set \<Rightarrow> key list" where
  "keep_cols_of headers zero_cols = filter (\<lambda>c. c \<notin> zero_cols) headers"

text \<open>
  The two steps together, for the rows of a file that has at least one: the set
  \<^verbatim>\<open>zero_cols\<close> and the dictionary \<^verbatim>\<open>columns\<close>, or the exception that ends the
  conversion before the output file is opened.
\<close>

definition headers_of :: "row list \<Rightarrow> key list" where
  "headers_of rows = map fst (hd rows)"

definition columnar :: "row list \<Rightarrow> error + key set \<times> document" where
  "columnar rows =
     (case find_zero_cols (headers_of rows) rows {} of
        Inl e \<Rightarrow> Inl e
      | Inr zero_cols \<Rightarrow>
          (let keep_cols = keep_cols_of (headers_of rows) zero_cols
           in case build_columns rows keep_cols (map (\<lambda>col. (col, [])) keep_cols) of
                Inl e \<Rightarrow> Inl e
              | Inr columns \<Rightarrow> Inr (zero_cols, columns)))"

subsection \<open>Files and console\<close>

text \<open>
  The directory \<^verbatim>\<open>public\<close> is a map from file names to the text of the files, and
  the console is the list of the lines printed so far. The lines are kept in
  structured form: \<open>Converted\<close> carries the numbers that the summary line shows and
  the set whose sorted elements it lists.
\<close>

datatype line =
  Start | Done | Missing string | Skip string
  | Converted string string nat int nat "key set"

record world =
  files :: "string \<rightharpoonup> string"
  stdout :: "line list"

definition print :: "line \<Rightarrow> world \<Rightarrow> world" where
  "print l w = w\<lparr>stdout := stdout w @ [l]\<rparr>"

definition write_file :: "string \<Rightarrow> string \<Rightarrow> world \<Rightarrow> world" where
  "write_file name text w = w\<lparr>files := (files w)(name \<mapsto> text)\<rparr>"

text \<open>
  \<^verbatim>\<open>
  def convert(csv_name: str, json_name: str):
      with open(csv_path, newline="", encoding="utf-8") as f:
          reader = csv.DictReader(f, delimiter=";")
          rows = list(reader)
      if not rows:
          print(f"  SKIP {csv_name} (empty)")
          return
      headers = list(rows[0].keys())
      ...
      with open(json_path, "w", encoding="utf-8") as f:
          json.dump(columns, f, separators=(",", ":"))
      orig_cols = len(headers)
      dropped = len(zero_cols)
      n_rows = len(next(iter(columns.values())))
      print(...)
  \<close>
  The result is the world after the call and the exception that left it, if any.
  \<^verbatim>\<open>next\<close> raises \<^verbatim>\<open>StopIteration\<close> on a dictionary without entries, after the
  output file has been written.
\<close>

definition convert :: "string \<Rightarrow> string \<Rightarrow> world \<Rightarrow> world \<times> error option" where
  "convert csv_name json_name w =
     (case files w csv_name of
        None \<Rightarrow> (w, Some FileNotFoundError)
      | Some text \<Rightarrow>
          (case csv_reader text of
             Inl e \<Rightarrow> (w, Some e)
           | Inr recs \<Rightarrow>
               (let rows = dict_reader recs
                in if rows = [] then (print (Skip csv_name) w, None)
                   else (case columnar rows of
                           Inl e \<Rightarrow> (w, Some e)
                         | Inr (zero_cols, columns) \<Rightarrow>
                             (let w' = write_file json_name (json_dumps columns) w;
                                  orig_cols = length (headers_of rows);
                                  dropped = card zero_cols
                              in case columns of
                                   [] \<Rightarrow> (w', Some StopIteration)
                                 | (col, vs) # _ \<Rightarrow>
                                     (print (Converted csv_name json_name (length vs)
                                        (int orig_cols - int dropped) orig_cols zero_cols) w',
                                      None))))))"

section \<open>\<^verbatim>\<open>main\<close>\<close>

definition FILE_MAP :: "(string \<times> string) list" where
  "FILE_MAP =
     [(''calculation.csv'', ''calc_15min_consumption_2024.json''),
      (''calculation (1).csv'', ''calc_15min_pv_2025.json''),
      (''calculation (2).csv'', ''calc_15min_partial_2025.json''),
      (''calculation (3).csv'', ''calc_15min_generator_2025.json''),
      (''calculation (4).csv'', ''calc_15min_battery_2024.json''),
      (''calculation_per_day.csv'', ''calc_daily_consumption_2024.json''),
      (''calculation_per_day (1).csv'', ''calc_daily_simple_2024.json''),
      (''calculation_per_day (2).csv'', ''calc_daily_pv_2024.json''),
      (''calculation_per_month.csv'', ''calc_monthly_2024.json''),
      (''input_profiles.csv'', ''profiles_15min_consumption_2024.json''),
      (''input_profiles (1).csv'', ''profiles_15min_pv_2025.json''),
      (''input_profiles (2).csv'', ''profiles_15min_partial_2025.json''),
      (''input_profiles (3).csv'', ''profiles_15min_extra_2025.json''),
      (''input_profiles (4).csv'', ''profiles_15min_full_2024.json'')]"

text \<open>
  \<^verbatim>\<open>
  for csv_name, json_name in FILE_MAP.items():
      csv_path = os.path.join(PUBLIC, csv_name)
      if not os.path.exists(csv_path):
          print(f"  MISSING: {csv_name}")
          continue
      convert(csv_name, json_name)
  \<close>
  An exception of \<^verbatim>\<open>convert\<close> is not caught: it ends the loop and the program.
\<close>

fun run :: "(string \<times> string) list \<Rightarrow> world \<Rightarrow> world \<times> error option" where
  "run [] w = (w, None)"
| "run ((csv_name, json_name) # rest) w =
     (if files w csv_name = None then run rest (print (Missing csv_name) w)
      else (case convert csv_name json_name w of
              (w', Some e) \<Rightarrow> (w', Some e)
            | (w', None) \<Rightarrow> run rest w'))"

definition main :: "world \<Rightarrow> world \<times> error option" where
  "main w =
     (case run FILE_MAP (print Start w) of
        (w', Some e) \<Rightarrow> (w', Some e)
      | (w', None) \<Rightarrow> (print Done w', None))"

section \<open>Properties\<close>

text \<open>
  \<open>cell_ok c row x\<close>: the cell of the row \<open>row\<close> in the column \<open>c\<close> is a string, and
  \<^verbatim>\<open>parse_value\<close> returns \<open>x\<close> for it.
\<close>

definition cell_ok :: "key \<Rightarrow> row \<Rightarrow> pyval \<Rightarrow> bool" where
  "cell_ok c row x = (\<exists>s. map_of row c = Some (Str s) \<and> parse_value (Str s) = Inr x)"

text \<open>
  The vocabulary of the specification: a cell is blank (``empty'') when it holds
  nothing but white space, and it parses as zero when \<^verbatim>\<open>float\<close> accepts it, trimmed,
  and the number is equal to \<^verbatim>\<open>0.0\<close>.
\<close>

definition blank :: "string \<Rightarrow> bool" where
  "blank s = list_all isspace s"

definition parses_as_zero :: "string \<Rightarrow> bool" where
  "parses_as_zero s =
     (case float_of_str (strip s) of None \<Rightarrow> False | Some f \<Rightarrow> float_is_zero f)"

text \<open>
  An input for the examples: five columns and two data rows. The column \<^verbatim>\<open>a\<close> holds
  zeros, \<^verbatim>\<open>b\<close> a string and a blank cell, \<^verbatim>\<open>c\<close> blank cells only.
\<close>

definition example_text :: string where
  "example_text = ''timestamps;date;a;b;c\<newline>0;d1;0;x; \<newline>0;d2;0.0; ;\<newline>''"

definition example_recs :: "string list list" where
  "example_recs =
     [[''timestamps'', ''date'', ''a'', ''b'', ''c''],
      [''0'', ''d1'', ''0'', ''x'', '' ''],
      [''0'', ''d2'', ''0.0'', '' '', '''']]"

definition example_columns :: document where
  "example_columns =
     [(Some ''timestamps'', [PyInt 0, PyInt 0]),
      (Some ''b'', [PyStr ''x'', PyNone])]"

definition example_world :: world where
  "example_world = \<lparr>files = [''calculation.csv'' \<mapsto> example_text], stdout = []\<rparr>"

text \<open>A file that holds a header and no data row, and a second world for the example.\<close>

definition header_world :: world where
  "header_world = \<lparr>files = [''calculation.csv'' \<mapsto> ''a;b\<newline>''], stdout = []\<rparr>"

definition example_world2 :: world where
  "example_world2 =
     \<lparr>files = [''calculation.csv'' \<mapsto> example_text, ''calc.json'' \<mapsto> ''old''],
      stdout = [Start]\<rparr>"

text \<open>
  A directory whose only file is \<^verbatim>\<open>calculation.csv\<close>, with the single column
  \<^verbatim>\<open>date\<close> and one data row; and one whose file has a cell \<^verbatim>\<open>inf\<close>.
\<close>

definition dropped_world :: world where
  "dropped_world =
     \<lparr>files = [''calculation.csv'' \<mapsto> ''date\<newline>2024-01-01\<newline>''], stdout = []\<rparr>"

definition inf_world :: world where
  "inf_world = \<lparr>files = [''calculation.csv'' \<mapsto> ''x\<newline>inf\<newline>''], stdout = []\<rparr>"

subsection \<open>Auxiliary facts\<close>

text \<open>The bound \<open>2 ^ 1024\<close> as a numeral, for evaluation.\<close>

lemma float_overflow_code [code]:
  "float_overflow = 179769313486231590772930519078902473361797697894230657273430081157732675805500963132708477322407536021120113879871393357658789768814416622492847430639474124377767893424865485276302219601246094119453082952085005768838150682342462881473913110540827237163350510684586298239947245938479716304835356329624224137216"
  by (simp add: float_overflow_def pow2_def)

lemma strip_Nil_iff: "strip s = [] \<longleftrightarrow> list_all isspace s"
proof -
  have "(\<forall>x\<in>set (dropWhile isspace s). isspace x) \<longleftrightarrow> dropWhile isspace s = []"
  proof
    assume a: "\<forall>x\<in>set (dropWhile isspace s). isspace x"
    show "dropWhile isspace s = []"
    proof (rule ccontr)
      assume n: "dropWhile isspace s \<noteq> []"
      then have "\<not> isspace (hd (dropWhile isspace s))" by (rule hd_dropWhile)
      moreover from n have "hd (dropWhile isspace s) \<in> set (dropWhile isspace s)" by simp
      ultimately show False using a by blast
    qed
  qed (auto dest: set_dropWhileD)
  then show ?thesis
    by (simp add: strip_def list_all_iff dropWhile_eq_Nil_conv)
qed

lemma parse_value_Inr_Str: "parse_value v = Inr x \<Longrightarrow> \<exists>s. v = Str s"
  by (cases v) (simp_all add: parse_value_def)

lemma append_row_Inr:
  "append_row row cols columns = Inr columns' \<Longrightarrow> distinct cols \<Longrightarrow>
     map fst columns' = map fst columns \<and>
     (\<forall>c. c \<notin> set cols \<longrightarrow> map_of columns' c = map_of columns c) \<and>
     (\<forall>c\<in>set cols. \<exists>v x vs. map_of row c = Some v \<and> parse_value v = Inr x \<and>
        map_of columns c = Some vs \<and> map_of columns' c = Some (vs @ [x]))"
proof (induction cols arbitrary: columns)
  case Nil
  then show ?case by simp
next
  case (Cons col cols)
  from Cons.prems(1) obtain v x vs where
    v: "map_of row col = Some v" and x: "parse_value v = Inr x" and
    vs: "map_of columns col = Some vs" and
    rest: "append_row row cols (AList.update col (vs @ [x]) columns) = Inr columns'"
    by (auto split: option.splits sum.splits)
  let ?c2 = "AList.update col (vs @ [x]) columns"
  from Cons.prems(2) have d: "distinct cols" and nin: "col \<notin> set cols" by simp_all
  note IH = Cons.IH[OF rest d]
  from vs have "col \<in> set (map fst columns)"
    by (metis map_of_eq_None_iff option.distinct(1) set_map)
  then have keys: "map fst ?c2 = map fst columns" by (simp add: update_keys)
  have m2: "map_of ?c2 = (map_of columns)(col \<mapsto> vs @ [x])" by (rule update_conv')
  show ?case
  proof (intro conjI allI ballI impI)
    show "map fst columns' = map fst columns" using IH keys by simp
  next
    fix c assume "c \<notin> set (col # cols)"
    then show "map_of columns' c = map_of columns c" using IH m2 by simp
  next
    fix c assume c: "c \<in> set (col # cols)"
    show "\<exists>v x vs. map_of row c = Some v \<and> parse_value v = Inr x \<and>
        map_of columns c = Some vs \<and> map_of columns' c = Some (vs @ [x])"
    proof (cases "c = col")
      case True
      then show ?thesis using IH nin m2 v x vs by simp
    next
      case False
      with c have "c \<in> set cols" by simp
      with IH obtain v' x' vs' where "map_of row c = Some v'" "parse_value v' = Inr x'"
        "map_of ?c2 c = Some vs'" "map_of columns' c = Some (vs' @ [x'])" by blast
      then show ?thesis using False m2 by auto
    qed
  qed
qed

lemma build_columns_Inr:
  "build_columns rows keep columns = Inr columns' \<Longrightarrow> distinct keep \<Longrightarrow>
     map fst columns' = map fst columns \<and>
     (\<forall>c\<in>set keep. \<forall>vs. map_of columns c = Some vs \<longrightarrow>
        (\<exists>xs. map_of columns' c = Some (vs @ xs) \<and> list_all2 (cell_ok c) rows xs))"
proof (induction rows arbitrary: columns)
  case Nil
  then show ?case by simp
next
  case (Cons row rows)
  from Cons.prems(1) obtain c1 where
    a: "append_row row keep columns = Inr c1" and b: "build_columns rows keep c1 = Inr columns'"
    by (auto split: sum.splits)
  note A = append_row_Inr[OF a Cons.prems(2)]
  note IH = Cons.IH[OF b Cons.prems(2)]
  show ?case
  proof (intro conjI ballI allI impI)
    show "map fst columns' = map fst columns" using A IH by simp
  next
    fix c vs assume c: "c \<in> set keep" and vs: "map_of columns c = Some vs"
    from A c vs obtain v x where v: "map_of row c = Some v" and x: "parse_value v = Inr x"
      and c1: "map_of c1 c = Some (vs @ [x])" by fastforce
    from IH c c1 obtain xs where xs: "map_of columns' c = Some ((vs @ [x]) @ xs)"
      and l: "list_all2 (cell_ok c) rows xs" by blast
    from parse_value_Inr_Str[OF x] v x have "cell_ok c row x" by (auto simp: cell_ok_def)
    with l have "list_all2 (cell_ok c) (row # rows) (x # xs)" by simp
    with xs show "\<exists>xs. map_of columns' c = Some (vs @ xs) \<and> list_all2 (cell_ok c) (row # rows) xs"
      by (intro exI[of _ "x # xs"]) simp
  qed
qed

lemma distinct_foldl_update:
  "distinct (map fst d) \<Longrightarrow>
   distinct (map fst (foldl (\<lambda>d (k, v). AList.update (f k) (g v) d) d xs))"
  by (induction xs arbitrary: d) (auto simp: distinct_update split: prod.splits)

lemma distinct_foldl_update1:
  "distinct (map fst d) \<Longrightarrow>
   distinct (map fst (foldl (\<lambda>d k. AList.update (f k) v d) d xs))"
  by (induction xs arbitrary: d) (auto simp: distinct_update)

lemma distinct_make_row: "distinct (map fst (make_row fieldnames r))"
  by (simp add: make_row_def Let_def distinct_update distinct_foldl_update distinct_foldl_update1)

lemma distinct_headers:
  "rows = dict_reader recs \<Longrightarrow> rows \<noteq> [] \<Longrightarrow> distinct (headers_of rows)"
  by (auto simp: dict_reader_def headers_of_def hd_map distinct_make_row split: list.splits)

lemma col_all_zero_Inr:
  "col_all_zero col rows = Inr b \<Longrightarrow>
   b = (\<forall>row\<in>set rows. \<forall>s. map_of row col = Some (Str s) \<longrightarrow> strip s \<noteq> [] \<longrightarrow>
          (\<exists>f. float_of_str (strip s) = Some f \<and> float_is_zero f))"
proof (induction rows)
  case Nil
  then show ?case by simp
next
  case (Cons row rows)
  then show ?case
    by (auto simp: Let_def split: option.splits cell.splits if_splits)
qed

lemma col_all_zero_True_Str:
  "col_all_zero col rows = Inr True \<Longrightarrow> row \<in> set rows \<Longrightarrow> \<exists>s. map_of row col = Some (Str s)"
  by (induction rows) (auto simp: Let_def split: option.splits cell.splits if_splits)

lemma find_zero_cols_Inr:
  "find_zero_cols cols rows Z0 = Inr Z \<Longrightarrow>
   Z = Z0 \<union> {c \<in> set cols. c = Some ''date'' \<or> c = Some ''month'' \<or>
                 (c \<noteq> Some ''timestamps'' \<and> col_all_zero c rows = Inr True)} \<and>
   (\<forall>c\<in>set cols. c \<noteq> Some ''date'' \<longrightarrow> c \<noteq> Some ''month'' \<longrightarrow> c \<noteq> Some ''timestamps'' \<longrightarrow>
       (\<exists>b. col_all_zero c rows = Inr b))"
proof (induction cols arbitrary: Z0)
  case Nil
  then show ?case by simp
next
  case (Cons col cols)
  show ?case
  proof (cases "col = Some ''date'' \<or> col = Some ''month''")
    case True
    with Cons.prems have "find_zero_cols cols rows (insert col Z0) = Inr Z" by auto
    from Cons.IH[OF this] True show ?thesis by auto
  next
    case nd: False
    show ?thesis
    proof (cases "col = Some ''timestamps''")
      case True
      with Cons.prems have "find_zero_cols cols rows Z0 = Inr Z" by auto
      from Cons.IH[OF this] True show ?thesis by auto
    next
      case False
      with nd Cons.prems obtain b where b: "col_all_zero col rows = Inr b"
        and r: "find_zero_cols cols rows (if b then insert col Z0 else Z0) = Inr Z"
        by (auto split: sum.splits)
      from Cons.IH[OF r] b nd False show ?thesis by (cases b) auto
    qed
  qed
qed

lemma columnar_Inr:
  assumes rows: "rows = dict_reader recs" "rows \<noteq> []"
    and col: "columnar rows = Inr (zero_cols, columns)"
  shows "find_zero_cols (headers_of rows) rows {} = Inr zero_cols"
    and "map fst columns = keep_cols_of (headers_of rows) zero_cols"
    and "distinct (map fst columns)"
    and "(c, vs) \<in> set columns \<Longrightarrow> list_all2 (cell_ok c) rows vs"
proof -
  let ?keep = "keep_cols_of (headers_of rows) zero_cols"
  from col show z: "find_zero_cols (headers_of rows) rows {} = Inr zero_cols"
    by (auto simp: columnar_def Let_def split: sum.splits)
  with col have b: "build_columns rows ?keep (map (\<lambda>col. (col, [])) ?keep) = Inr columns"
    by (auto simp: columnar_def Let_def split: sum.splits)
  have d: "distinct ?keep"
    using distinct_headers[OF rows] by (simp add: keep_cols_of_def)
  note B = build_columns_Inr[OF b d]
  from B show k: "map fst columns = ?keep" by (simp add: comp_def)
  from k d show dc: "distinct (map fst columns)" by simp
  assume m: "(c, vs) \<in> set columns"
  with k have c: "c \<in> set ?keep" by (metis fst_conv image_eqI set_map)
  have "map_of (map (\<lambda>col. (col, [])) ?keep) c = Some []"
    using c by (simp add: map_of_map_restrict)
  with B c obtain xs where "map_of columns c = Some ([] @ xs)" "list_all2 (cell_ok c) rows xs"
    by blast
  moreover from m dc have "map_of columns c = Some vs" by simp
  ultimately show "list_all2 (cell_ok c) rows vs" by simp
qed

lemma convert_document:
  assumes "files w csv_name = Some text" and "csv_reader text = Inr recs"
    and "rows = dict_reader recs" and "rows \<noteq> []"
    and "columnar rows = Inr (zero_cols, columns)"
  shows "files (fst (convert csv_name json_name w)) json_name = Some (json_dumps columns)"
  using assms
  by (simp add: convert_def Let_def write_file_def print_def split: list.splits prod.splits)

subsection \<open>The example input\<close>

lemma example_file: "files example_world ''calculation.csv'' = Some example_text"
  by (simp add: example_world_def)

lemma example_reader: "csv_reader example_text = Inr example_recs"
  by code_simp

lemma example_rows: "dict_reader example_recs \<noteq> []"
  by code_simp

lemma example_length: "length (dict_reader example_recs) = 2"
  by code_simp

lemma example_headers:
  "headers_of (dict_reader example_recs) =
     [Some ''timestamps'', Some ''date'', Some ''a'', Some ''b'', Some ''c'']"
  by code_simp

lemma example_columnar:
  "columnar (dict_reader example_recs) =
     Inr ({Some ''date'', Some ''a'', Some ''c''}, example_columns)"
  by code_simp


lemma zero_or_blank:
  "(strip s \<noteq> [] \<longrightarrow> (\<exists>f. float_of_str (strip s) = Some f \<and> float_is_zero f)) \<longleftrightarrow>
   (blank s \<or> parses_as_zero s)"
  by (cases "float_of_str (strip s)") (auto simp: blank_def parses_as_zero_def strip_Nil_iff)

lemma example_dict:
  "dict_reader example_recs =
     [[(Some ''timestamps'', Str ''0''), (Some ''date'', Str ''d1''), (Some ''a'', Str ''0''),
       (Some ''b'', Str ''x''), (Some ''c'', Str '' '')],
      [(Some ''timestamps'', Str ''0''), (Some ''date'', Str ''d2''), (Some ''a'', Str ''0.0''),
       (Some ''b'', Str '' ''), (Some ''c'', Str '''')]]"
  by code_simp

lemma csv_reader_empty: "csv_reader [] = Inr []"
  by (simp add: csv_reader_def parse_reset_def)

lemma dict_reader_empty_iff:
  "dict_reader recs = [] \<longleftrightarrow> recs = [] \<or> list_all (\<lambda>r. r = []) (tl recs)"
  by (cases recs) (auto simp: dict_reader_def filter_empty_conv list_all_iff)

section \<open>The claims\<close>

subsection \<open>Value coercion\<close>

text \<open>
  Claim C3: a cell that parses as a whole number and contains no decimal point is
  coerced to an integer, the exponent notation \<^verbatim>\<open>1e3\<close> included. The code does not do
  this for \<^verbatim>\<open>1e3\<close>: \<^verbatim>\<open>float("1e3")\<close> is \<^verbatim>\<open>1000.0\<close>, equal to its truncation, and
  the string has no point, but the integer is then taken from \<^verbatim>\<open>int(val)\<close>, which
  raises \<^verbatim>\<open>ValueError\<close> for \<^verbatim>\<open>"1e3"\<close>; the \<^verbatim>\<open>except\<close> clause meant for \<^verbatim>\<open>float\<close>
  catches it, and the cell is returned as the string \<^verbatim>\<open>"1e3"\<close>.
\<close>

theorem exponent_cell_kept_as_string:
  "float_of_str ''1e3'' = Some (Fin False 1000) \<and>
   int_of_float (Fin False 1000) = Inr 1000 \<and>
   float_eq_int (Fin False 1000) 1000 \<and>
   int_of_str ''1e3'' = None \<and>
   parse_value (Str ''1e3'') = Inr (PyStr ''1e3'')"
  by code_simp

text \<open>
  Claim C6, as amended: when \<^verbatim>\<open>float\<close> rejects a cell that is not blank, the
  coercion returns the cell without its leading and trailing white space.
\<close>

theorem unparseable_cell_stripped:
  "strip s \<noteq> [] \<Longrightarrow> float_of_str (strip s) = None \<Longrightarrow>
   parse_value (Str s) = Inr (PyStr (strip s))"
  by (simp add: parse_value_def parse_str_def)

theorem unparseable_cell_stripped_witness:
  "strip '' abc '' \<noteq> [] \<and> float_of_str (strip '' abc '') = None \<and>
   parse_value (Str '' abc '') = Inr (PyStr ''abc'')"
proof -
  have h1: "strip '' abc '' \<noteq> []" by code_simp
  have h2: "float_of_str (strip '' abc '') = None" by code_simp
  have h3: "strip '' abc '' = ''abc''" by code_simp
  from unparseable_cell_stripped [OF h1 h2] h1 h2 h3 show ?thesis by simp
qed

text \<open>
  Claim C6 as stated (the raw cell is returned, not a trimmed version of it) fails on
  the cell \<^verbatim>\<open>" abc "\<close>, which \<^verbatim>\<open>float\<close> rejects: the result is \<^verbatim>\<open>"abc"\<close>.
\<close>

theorem unparseable_cell_not_raw:
  "float_of_str '' abc '' = None \<and> parse_value (Str '' abc '') \<noteq> Inr (PyStr '' abc '')"
  by code_simp

subsection \<open>The columnar document\<close>



text \<open>
  Claim C4: for an input with at least one data row, every column of the output
  document has one value for each data row, and the value at position \<open>i\<close> is the
  coercion of the cell of that column in the row \<open>i\<close>. The document \<open>columns\<close> is the
  one whose JSON text the conversion writes to the output file.
\<close>

theorem columns_follow_rows:
  assumes "files w csv_name = Some text" and "csv_reader text = Inr recs"
    and "rows = dict_reader recs" and "rows \<noteq> []"
    and "columnar rows = Inr (zero_cols, columns)"
  shows "files (fst (convert csv_name json_name w)) json_name = Some (json_dumps columns) \<and>
    (\<forall>(col, vs)\<in>set columns.
       length vs = length rows \<and> (\<forall>i<length rows. cell_ok col (rows ! i) (vs ! i)))"
proof -
  have "length vs = length rows \<and> (\<forall>i<length rows. cell_ok col (rows ! i) (vs ! i))"
    if "(col, vs) \<in> set columns" for col vs
    using columnar_Inr(4) [OF assms(3,4,5) that]
    by (simp add: list_all2_conv_all_nth)
  with convert_document [OF assms] show ?thesis by auto
qed

theorem columns_follow_rows_witness:
  "files example_world ''calculation.csv'' = Some example_text \<and>
   csv_reader example_text = Inr example_recs \<and>
   dict_reader example_recs \<noteq> [] \<and>
   columnar (dict_reader example_recs) =
     Inr ({Some ''date'', Some ''a'', Some ''c''}, example_columns) \<and>
   files (fst (convert ''calculation.csv'' ''calc.json'' example_world)) ''calc.json'' =
     Some (json_dumps example_columns) \<and>
   (Some ''b'', [PyStr ''x'', PyNone]) \<in> set example_columns \<and>
   length [PyStr ''x'', PyNone] = length (dict_reader example_recs) \<and>
   cell_ok (Some ''b'') (dict_reader example_recs ! 0) (PyStr ''x'') \<and>
   cell_ok (Some ''b'') (dict_reader example_recs ! 1) PyNone"
proof -
  note T = columns_follow_rows [OF example_file example_reader refl example_rows
      example_columnar, of "''calc.json''"]
  have m: "(Some ''b'', [PyStr ''x'', PyNone]) \<in> set example_columns"
    by (simp add: example_columns_def)
  from T m have c: "length [PyStr ''x'', PyNone] = length (dict_reader example_recs) \<and>
      (\<forall>i<length (dict_reader example_recs).
         cell_ok (Some ''b'') (dict_reader example_recs ! i) ([PyStr ''x'', PyNone] ! i))"
    by blast
  with example_length have a: "\<forall>i<2.
      cell_ok (Some ''b'') (dict_reader example_recs ! i) ([PyStr ''x'', PyNone] ! i)"
    by simp
  from a [rule_format, of 0] a [rule_format, of 1]
  have "cell_ok (Some ''b'') (dict_reader example_recs ! 0) (PyStr ''x'')"
    and "cell_ok (Some ''b'') (dict_reader example_recs ! 1) PyNone"
    by simp_all
  with T c m example_file example_reader example_rows example_columnar show ?thesis by simp
qed

text \<open>
  Claim C5: for an input with at least one data row, the columns named \<^verbatim>\<open>date\<close> and
  \<^verbatim>\<open>month\<close> are never in the output document, whatever their cells hold, and a column
  named \<^verbatim>\<open>timestamps\<close> is always in it, whatever its cells hold (the cells of these
  three columns are not looked at when the dropped columns are chosen).
\<close>

theorem time_columns:
  assumes "files w csv_name = Some text" and "csv_reader text = Inr recs"
    and "rows = dict_reader recs" and "rows \<noteq> []"
    and "columnar rows = Inr (zero_cols, columns)"
  shows "files (fst (convert csv_name json_name w)) json_name = Some (json_dumps columns) \<and>
    Some ''date'' \<notin> fst ` set columns \<and>
    Some ''month'' \<notin> fst ` set columns \<and>
    (Some ''timestamps'' \<in> set (headers_of rows) \<longrightarrow>
       Some ''timestamps'' \<notin> zero_cols \<and> Some ''timestamps'' \<in> fst ` set columns)"
proof -
  note z = find_zero_cols_Inr [OF columnar_Inr(1) [OF assms(3,4,5)]]
  have k: "fst ` set columns = {c \<in> set (headers_of rows). c \<notin> zero_cols}"
    using columnar_Inr(2) [OF assms(3,4,5)]
    by (metis keep_cols_of_def set_filter set_map)
  from z have "Some ''date'' \<in> set (headers_of rows) \<Longrightarrow> Some ''date'' \<in> zero_cols"
    and "Some ''month'' \<in> set (headers_of rows) \<Longrightarrow> Some ''month'' \<in> zero_cols"
    and "Some ''timestamps'' \<notin> zero_cols"
    by auto
  with k convert_document [OF assms] show ?thesis by auto
qed

theorem time_columns_witness:
  "files example_world ''calculation.csv'' = Some example_text \<and>
   csv_reader example_text = Inr example_recs \<and>
   dict_reader example_recs \<noteq> [] \<and>
   columnar (dict_reader example_recs) =
     Inr ({Some ''date'', Some ''a'', Some ''c''}, example_columns) \<and>
   Some ''date'' \<in> set (headers_of (dict_reader example_recs)) \<and>
   Some ''timestamps'' \<in> set (headers_of (dict_reader example_recs)) \<and>
   Some ''date'' \<notin> fst ` set example_columns \<and>
   Some ''timestamps'' \<in> fst ` set example_columns"
proof -
  note T = time_columns [OF example_file example_reader refl example_rows example_columnar,
      of "''calc.json''"]
  have h: "Some ''date'' \<in> set (headers_of (dict_reader example_recs))"
    "Some ''timestamps'' \<in> set (headers_of (dict_reader example_recs))"
    by (simp_all add: example_headers)
  with T have "Some ''date'' \<notin> fst ` set example_columns"
    and "Some ''timestamps'' \<in> fst ` set example_columns"
    by blast+
  with h example_file example_reader example_rows example_columnar show ?thesis by simp
qed

text \<open>
  Claim C2: for an input with at least one data row, a column other than \<^verbatim>\<open>date\<close>,
  \<^verbatim>\<open>month\<close> and \<^verbatim>\<open>timestamps\<close> is in the drop set exactly when each of its cells
  that is not blank parses as zero; a column with a cell that is neither blank nor
  parses as zero (not a number, or a number other than zero) is retained, and the
  retained columns are the columns of the output document.
\<close>

theorem zero_column_dropped_iff:
  assumes "files w csv_name = Some text" and "csv_reader text = Inr recs"
    and "rows = dict_reader recs" and "rows \<noteq> []"
    and "columnar rows = Inr (zero_cols, columns)"
    and "col \<in> set (headers_of rows)"
    and "col \<noteq> Some ''date''" and "col \<noteq> Some ''month''" and "col \<noteq> Some ''timestamps''"
  shows "files (fst (convert csv_name json_name w)) json_name = Some (json_dumps columns) \<and>
    (col \<in> zero_cols \<longleftrightarrow>
       (\<forall>row\<in>set rows. \<forall>s. map_of row col = Some (Str s) \<longrightarrow> blank s \<or> parses_as_zero s)) \<and>
    (col \<notin> zero_cols \<longleftrightarrow> col \<in> fst ` set columns) \<and>
    ((\<exists>row\<in>set rows. \<exists>s. map_of row col = Some (Str s) \<and> \<not> blank s \<and> \<not> parses_as_zero s)
       \<longrightarrow> col \<notin> zero_cols \<and> col \<in> fst ` set columns)"
proof -
  note z = find_zero_cols_Inr [OF columnar_Inr(1) [OF assms(3,4,5)]]
  have k: "fst ` set columns = {c \<in> set (headers_of rows). c \<notin> zero_cols}"
    using columnar_Inr(2) [OF assms(3,4,5)]
    by (metis keep_cols_of_def set_filter set_map)
  from z assms(6-9) obtain b where b: "col_all_zero col rows = Inr b" by blast
  from z assms(6-9) b have m: "col \<in> zero_cols \<longleftrightarrow> b" by auto
  have "b \<longleftrightarrow>
      (\<forall>row\<in>set rows. \<forall>s. map_of row col = Some (Str s) \<longrightarrow> blank s \<or> parses_as_zero s)"
    using col_all_zero_Inr [OF b] zero_or_blank by blast
  with m have i: "col \<in> zero_cols \<longleftrightarrow>
      (\<forall>row\<in>set rows. \<forall>s. map_of row col = Some (Str s) \<longrightarrow> blank s \<or> parses_as_zero s)"
    by simp
  from k assms(6) have r: "col \<notin> zero_cols \<longleftrightarrow> col \<in> fst ` set columns" by auto
  from i r have "(\<exists>row\<in>set rows. \<exists>s. map_of row col = Some (Str s) \<and> \<not> blank s \<and>
      \<not> parses_as_zero s) \<longrightarrow> col \<notin> zero_cols \<and> col \<in> fst ` set columns"
    by blast
  with i r convert_document [OF assms(1-5)] show ?thesis by blast
qed

theorem zero_column_dropped_iff_witness:
  "files example_world ''calculation.csv'' = Some example_text \<and>
   csv_reader example_text = Inr example_recs \<and>
   dict_reader example_recs \<noteq> [] \<and>
   columnar (dict_reader example_recs) =
     Inr ({Some ''date'', Some ''a'', Some ''c''}, example_columns) \<and>
   Some ''a'' \<in> set (headers_of (dict_reader example_recs)) \<and>
   Some ''b'' \<in> set (headers_of (dict_reader example_recs)) \<and>
   parses_as_zero ''0'' \<and> parses_as_zero ''0.0'' \<and>
   \<not> blank ''x'' \<and> \<not> parses_as_zero ''x'' \<and>
   Some ''a'' \<notin> fst ` set example_columns \<and>
   Some ''b'' \<in> fst ` set example_columns"
proof -
  have ha: "Some ''a'' \<in> set (headers_of (dict_reader example_recs))"
    and hb: "Some ''b'' \<in> set (headers_of (dict_reader example_recs))"
    by (simp_all add: example_headers)
  note A = zero_column_dropped_iff [OF example_file example_reader refl example_rows
      example_columnar ha, of "''calc.json''"]
  note B = zero_column_dropped_iff [OF example_file example_reader refl example_rows
      example_columnar hb, of "''calc.json''"]
  have z: "parses_as_zero ''0''" "parses_as_zero ''0.0''" by code_simp+
  have x: "\<not> blank ''x''" "\<not> parses_as_zero ''x''" by code_simp+
  from A have a: "Some ''a'' \<notin> fst ` set example_columns" by simp
  have "\<exists>row\<in>set (dict_reader example_recs). \<exists>s.
      map_of row (Some ''b'') = Some (Str s) \<and> \<not> blank s \<and> \<not> parses_as_zero s"
    using x by (simp add: example_dict)
  with B have b: "Some ''b'' \<in> fst ` set example_columns" by simp
  from a b ha hb z x example_file example_reader example_rows example_columnar
  show ?thesis by simp
qed

text \<open>
  Claim C10: for an input with at least one data row, a column other than
  \<^verbatim>\<open>timestamps\<close>, \<^verbatim>\<open>date\<close> and \<^verbatim>\<open>month\<close> whose cells are all blank passes the
  all-zero test, is in the drop set and is not in the output document.
\<close>

theorem blank_column_dropped:
  assumes "files w csv_name = Some text" and "csv_reader text = Inr recs"
    and "rows = dict_reader recs" and "rows \<noteq> []"
    and "columnar rows = Inr (zero_cols, columns)"
    and "col \<in> set (headers_of rows)"
    and "col \<noteq> Some ''date''" and "col \<noteq> Some ''month''" and "col \<noteq> Some ''timestamps''"
    and "\<forall>row\<in>set rows. \<exists>s. map_of row col = Some (Str s) \<and> blank s"
  shows "files (fst (convert csv_name json_name w)) json_name = Some (json_dumps columns) \<and>
    col_all_zero col rows = Inr True \<and> col \<in> zero_cols \<and> col \<notin> fst ` set columns"
proof -
  note z = find_zero_cols_Inr [OF columnar_Inr(1) [OF assms(3,4,5)]]
  have k: "fst ` set columns = {c \<in> set (headers_of rows). c \<notin> zero_cols}"
    using columnar_Inr(2) [OF assms(3,4,5)]
    by (metis keep_cols_of_def set_filter set_map)
  from z assms(6-9) obtain b where b: "col_all_zero col rows = Inr b" by blast
  have "b" using col_all_zero_Inr [OF b] zero_or_blank assms(10) by fastforce
  with b have t: "col_all_zero col rows = Inr True" by simp
  with z assms(6-9) have "col \<in> zero_cols" by auto
  with k t convert_document [OF assms(1-5)] show ?thesis by auto
qed

theorem blank_column_dropped_witness:
  "files example_world ''calculation.csv'' = Some example_text \<and>
   csv_reader example_text = Inr example_recs \<and>
   dict_reader example_recs \<noteq> [] \<and>
   columnar (dict_reader example_recs) =
     Inr ({Some ''date'', Some ''a'', Some ''c''}, example_columns) \<and>
   Some ''c'' \<in> set (headers_of (dict_reader example_recs)) \<and>
   blank '' '' \<and> blank [] \<and>
   col_all_zero (Some ''c'') (dict_reader example_recs) = Inr True \<and>
   Some ''c'' \<notin> fst ` set example_columns"
proof -
  have h: "Some ''c'' \<in> set (headers_of (dict_reader example_recs))"
    by (simp add: example_headers)
  have bl: "blank '' ''" "blank []" by code_simp+
  then have c: "\<forall>row\<in>set (dict_reader example_recs). \<exists>s.
      map_of row (Some ''c'') = Some (Str s) \<and> blank s"
    by (simp add: example_dict)
  from blank_column_dropped [OF example_file example_reader refl example_rows
      example_columnar h _ _ _ c, of "''calc.json''"]
  have "col_all_zero (Some ''c'') (dict_reader example_recs) = Inr True"
    and "Some ''c'' \<notin> fst ` set example_columns"
    by simp_all
  with h bl example_file example_reader example_rows example_columnar
  show ?thesis by simp
qed

subsection \<open>Files\<close>

text \<open>
  Claim C8: when the input file exists and has no data row (no record at all, or a
  header followed by nothing but blank lines), the conversion writes no file, prints
  the skip notice and returns normally; every file, the one at the output path
  included, is as it was, and the run goes on with the remaining entries.
\<close>

theorem empty_input_skipped:
  assumes "files w csv_name = Some text" and "csv_reader text = Inr recs"
    and "dict_reader recs = []"
  shows "convert csv_name json_name w = (print (Skip csv_name) w, None) \<and>
    files (fst (convert csv_name json_name w)) = files w \<and>
    stdout (fst (convert csv_name json_name w)) = stdout w @ [Skip csv_name] \<and>
    run ((csv_name, json_name) # rest) w = run rest (print (Skip csv_name) w)"
  using assms by (simp add: convert_def print_def)

theorem empty_input_skipped_witness:
  "files header_world ''calculation.csv'' = Some ''a;b\<newline>'' \<and>
   csv_reader ''a;b\<newline>'' = Inr [[''a'', ''b'']] \<and>
   dict_reader [[''a'', ''b'']] = [] \<and>
   files (fst (convert ''calculation.csv'' ''calc.json'' header_world)) = files header_world \<and>
   files (fst (convert ''calculation.csv'' ''calc.json'' header_world)) ''calc.json'' = None \<and>
   stdout (fst (convert ''calculation.csv'' ''calc.json'' header_world)) =
     [Skip ''calculation.csv''] \<and>
   snd (convert ''calculation.csv'' ''calc.json'' header_world) = None"
proof -
  have f: "files header_world ''calculation.csv'' = Some ''a;b\<newline>''"
    by (simp add: header_world_def)
  have r: "csv_reader ''a;b\<newline>'' = Inr [[''a'', ''b'']]" by code_simp
  have d: "dict_reader [[''a'', ''b'']] = []" by code_simp
  have n: "files header_world ''calc.json'' = None" "stdout header_world = []"
    by (simp_all add: header_world_def)
  from empty_input_skipped [OF f r d, of "''calc.json''" "[]"] f r d n
  show ?thesis by (simp add: print_def)
qed

text \<open>
  Claim C9: the conversion of one pair is a function of the text of the input file.
  In two worlds that hold the same text under the input name, it ends in the same
  way, prints the same lines, and either writes no file in both or writes the same
  text to the output file in both; in particular a second conversion over the same
  input writes the same output file again.
\<close>

theorem convert_deterministic:
  assumes "files w1 csv_name = files w2 csv_name"
  shows "snd (convert csv_name json_name w1) = snd (convert csv_name json_name w2) \<and>
    (\<exists>ls. stdout (fst (convert csv_name json_name w1)) = stdout w1 @ ls \<and>
          stdout (fst (convert csv_name json_name w2)) = stdout w2 @ ls) \<and>
    (files (fst (convert csv_name json_name w1)) = files w1 \<and>
       files (fst (convert csv_name json_name w2)) = files w2 \<or>
     (\<exists>t. files (fst (convert csv_name json_name w1)) = (files w1)(json_name \<mapsto> t) \<and>
          files (fst (convert csv_name json_name w2)) = (files w2)(json_name \<mapsto> t)))"
proof (cases "files w2 csv_name")
  case None
  with assms show ?thesis by (simp add: convert_def)
next
  case (Some body)
  show ?thesis
  proof (cases "csv_reader body")
    case (Inl e)
    with Some assms show ?thesis by (simp add: convert_def)
  next
    case (Inr recs)
    show ?thesis
    proof (cases "dict_reader recs = []")
      case True
      with Inr Some assms show ?thesis by (simp add: convert_def print_def)
    next
      case False
      show ?thesis
      proof (cases "columnar (dict_reader recs)")
        case (Inl e)
        with False Inr Some assms show ?thesis by (simp add: convert_def)
      next
        case r: (Inr p)
        obtain zero_cols columns where p: "p = (zero_cols, columns)" by (cases p)
        show ?thesis
        proof (cases columns)
          case Nil
          with p r False Inr Some assms show ?thesis
            by (auto simp add: convert_def Let_def write_file_def)
        next
          case (Cons c cs)
          obtain col vs where "c = (col, vs)" by (cases c)
          with Cons p r False Inr Some assms show ?thesis
            by (auto simp add: convert_def Let_def write_file_def print_def)
        qed
      qed
    qed
  qed
qed

theorem convert_deterministic_witness:
  "files example_world ''calculation.csv'' = files example_world2 ''calculation.csv'' \<and>
   files example_world ''calc.json'' = None \<and>
   files example_world2 ''calc.json'' = Some ''old'' \<and>
   snd (convert ''calculation.csv'' ''calc.json'' example_world) =
     snd (convert ''calculation.csv'' ''calc.json'' example_world2) \<and>
   files (fst (convert ''calculation.csv'' ''calc.json'' example_world)) ''calc.json'' =
     Some (json_dumps example_columns) \<and>
   files (fst (convert ''calculation.csv'' ''calc.json'' example_world2)) ''calc.json'' =
     Some (json_dumps example_columns)"
proof -
  have h: "files example_world ''calculation.csv'' = files example_world2 ''calculation.csv''"
    by (simp add: example_world_def example_world2_def)
  have n: "files example_world ''calc.json'' = None"
    "files example_world2 ''calc.json'' = Some ''old''"
    by (simp_all add: example_world_def example_world2_def)
  note T = convert_deterministic [OF h, of "''calc.json''"]
  have d: "files (fst (convert ''calculation.csv'' ''calc.json'' example_world)) ''calc.json'' =
      Some (json_dumps example_columns)"
    by (rule convert_document [OF example_file example_reader refl example_rows
          example_columnar])
  from T have e: "snd (convert ''calculation.csv'' ''calc.json'' example_world) =
      snd (convert ''calculation.csv'' ''calc.json'' example_world2)"
    by simp
  from T have "files (fst (convert ''calculation.csv'' ''calc.json'' example_world)) =
        files example_world \<and>
      files (fst (convert ''calculation.csv'' ''calc.json'' example_world2)) =
        files example_world2 \<or>
      (\<exists>t. files (fst (convert ''calculation.csv'' ''calc.json'' example_world)) =
             (files example_world)(''calc.json'' \<mapsto> t) \<and>
           files (fst (convert ''calculation.csv'' ''calc.json'' example_world2)) =
             (files example_world2)(''calc.json'' \<mapsto> t))"
    by simp
  with d n have "files (fst (convert ''calculation.csv'' ''calc.json'' example_world2))
      ''calc.json'' = Some (json_dumps example_columns)"
    by (elim disjE conjE exE) simp_all
  with h n e d show ?thesis by simp
qed

subsection \<open>The run\<close>

text \<open>
  Claim C1: the run processes every configured entry and ends normally, whatever the
  files hold; in particular no input in which every column is dropped aborts it. The
  code does not do this. When \<^verbatim>\<open>calculation.csv\<close> holds the column \<^verbatim>\<open>date\<close> alone and
  one data row, \<^verbatim>\<open>convert\<close> writes the document \<^verbatim>\<open>{}\<close> and then raises
  \<^verbatim>\<open>StopIteration\<close> in \<^verbatim>\<open>next(iter(columns.values()))\<close>; \<^verbatim>\<open>main\<close> does not catch it, so
  the program ends there: nothing is printed after the first banner, neither for the
  thirteen entries left nor the closing line. A cell \<^verbatim>\<open>inf\<close> in a retained column
  ends the run in the same way, with the \<^verbatim>\<open>OverflowError\<close> of \<^verbatim>\<open>int(f)\<close>, before any
  file is written.
\<close>

theorem all_columns_dropped_aborts:
  "snd (main dropped_world) = Some StopIteration \<and>
   stdout (fst (main dropped_world)) = [Start] \<and>
   files (fst (main dropped_world)) ''calc_15min_consumption_2024.json'' = Some ''{}'' \<and>
   snd (main inf_world) = Some OverflowError \<and>
   stdout (fst (main inf_world)) = [Start] \<and>
   files (fst (main inf_world)) ''calc_15min_consumption_2024.json'' = None"
  by code_simp

end
